theory Spec2Isabelle
  imports Main
begin

section \<open>Python values, exceptions and dictionaries\<close>

text \<open>
  Field values are Python objects. The model distinguishes the scalar classes that
  \<^verbatim>\<open>_serialize_value\<close> passes through (\<^verbatim>\<open>None\<close>, \<^verbatim>\<open>bool\<close>, \<^verbatim>\<open>int\<close>, \<^verbatim>\<open>str\<close>; floats are
  left out) and every other object \<open>PObj h s\<close>, of which it keeps whether \<^verbatim>\<open>hash()\<close>
  accepts it (\<open>h\<close>; a list or a dict of a JSON column is not hashable) and its printed
  form \<^verbatim>\<open>str(x)\<close> (\<open>s\<close>). Two such objects compare equal when both agree.
\<close>

datatype pyval = PNone | PBool bool | PInt int | PStr string | PObj bool string

type_synonym pydict = "(string \<times> pyval) list"

datatype error =
    MergeValidationError string
  | ProfileNotFoundError string
  | InvalidProfileError string
  | StrategyNotFoundError string
  | PyError string string

text \<open>\<^verbatim>\<open>str(exc)\<close>: the message of an exception (\<open>PyError c m\<close> is an exception of the
  Python or Django class \<open>c\<close>).\<close>

fun exc_str :: "error \<Rightarrow> string" where
  "exc_str (MergeValidationError m) = m"
| "exc_str (ProfileNotFoundError m) = m"
| "exc_str (InvalidProfileError m) = m"
| "exc_str (StrategyNotFoundError m) = m"
| "exc_str (PyError c m) = m"

definition digit :: "nat \<Rightarrow> char" where
  "digit n = ''0123456789'' ! (n mod 10)"

function string_of_nat :: "nat \<Rightarrow> string" where
  "string_of_nat n =
     (if n < 10 then [digit n] else string_of_nat (n div 10) @ [digit n])"
  by pat_completeness auto
termination
  by (relation "measure (\<lambda>n. n)") auto

declare string_of_nat.simps [simp del]

text \<open>\<^verbatim>\<open>str(x)\<close>, which is also what an f-string prints for these classes.\<close>

fun py_str :: "pyval \<Rightarrow> string" where
  "py_str PNone = ''None''"
| "py_str (PBool b) = (if b then ''True'' else ''False'')"
| "py_str (PInt i) = (if i < 0 then ''-'' @ string_of_nat (nat (- i)) else string_of_nat (nat i))"
| "py_str (PStr s) = s"
| "py_str (PObj h s) = s"

text \<open>\<^verbatim>\<open>a == b\<close>: \<^verbatim>\<open>bool\<close> is a subclass of \<^verbatim>\<open>int\<close>, so \<^verbatim>\<open>True == 1\<close>.\<close>

fun py_num :: "pyval \<Rightarrow> int option" where
  "py_num (PBool b) = Some (if b then 1 else 0)"
| "py_num (PInt i) = Some i"
| "py_num v = None"

definition py_eq :: "pyval \<Rightarrow> pyval \<Rightarrow> bool" where
  "py_eq a b =
     (case py_num a of
        Some x \<Rightarrow> (case py_num b of Some y \<Rightarrow> x = y | None \<Rightarrow> False)
      | None \<Rightarrow> (case py_num b of Some y \<Rightarrow> False | None \<Rightarrow> a = b))"

definition py_ne :: "pyval \<Rightarrow> pyval \<Rightarrow> bool" where
  "py_ne a b = (\<not> py_eq a b)"

fun hashable :: "pyval \<Rightarrow> bool" where
  "hashable (PObj h s) = h"
| "hashable v = True"

text \<open>A \<^verbatim>\<open>dict\<close> keeps its keys in insertion order: \<^verbatim>\<open>d[k] = v\<close> replaces the value of a
  key that is present, where it stands, and appends a new key.\<close>

fun dict_set :: "('k \<times> 'v) list \<Rightarrow> 'k \<Rightarrow> 'v \<Rightarrow> ('k \<times> 'v) list" where
  "dict_set [] k v = [(k, v)]"
| "dict_set ((k', v') # d) k v =
     (if k' = k then (k, v) # d else (k', v') # dict_set d k v)"

definition dict_setdefault :: "('k \<times> 'v) list \<Rightarrow> 'k \<Rightarrow> 'v \<Rightarrow> ('k \<times> 'v) list" where
  "dict_setdefault d k v = (case map_of d k of None \<Rightarrow> d @ [(k, v)] | Some x \<Rightarrow> d)"

fun dict_update :: "('k \<times> 'v) list \<Rightarrow> ('k \<times> 'v) list \<Rightarrow> ('k \<times> 'v) list" where
  "dict_update d [] = d"
| "dict_update d ((k, v) # e) = dict_update (dict_set d k v) e"

section \<open>Field strategies (services/strategies.py)\<close>

type_synonym strategy_fn = "pyval \<Rightarrow> pyval \<Rightarrow> pydict \<Rightarrow> error + pyval"

text \<open>\<^verbatim>\<open>value in {None, ''}\<close> hashes \<^verbatim>\<open>value\<close> first, which raises \<^verbatim>\<open>TypeError\<close> for an
  unhashable object; no \<^verbatim>\<open>bool\<close> or \<^verbatim>\<open>int\<close> equals \<^verbatim>\<open>None\<close> or the empty string.\<close>

definition is_empty :: "pyval \<Rightarrow> error + bool" where
  "is_empty v =
     (if hashable v then Inr (v = PNone \<or> v = PStr '''')
      else Inl (PyError ''TypeError'' ''unhashable type''))"

definition prefer_target :: strategy_fn where
  "prefer_target target_value donor_value ctx =
     (case is_empty target_value of
        Inl e \<Rightarrow> Inl e
      | Inr b \<Rightarrow> if b then Inr donor_value else Inr target_value)"

definition prefer_donor :: strategy_fn where
  "prefer_donor target_value donor_value ctx = Inr donor_value"

definition prefer_non_null :: strategy_fn where
  "prefer_non_null target_value donor_value ctx =
     (case is_empty target_value of
        Inl e \<Rightarrow> Inl e
      | Inr b \<Rightarrow> if \<not> b then Inr target_value else Inr donor_value)"

definition concat_strategy :: strategy_fn where
  "concat_strategy target_value donor_value ctx =
     (case is_empty target_value of
        Inl e \<Rightarrow> Inl e
      | Inr bt \<Rightarrow>
          if bt then Inr donor_value
          else (case is_empty donor_value of
                  Inl e \<Rightarrow> Inl e
                | Inr bd \<Rightarrow>
                    if bd then Inr target_value
                    else
                      let separator =
                            (case map_of ctx ''separator'' of
                               None \<Rightarrow> PStr '' '' | Some s \<Rightarrow> s)
                      in Inr (PStr (py_str target_value @ py_str separator
                                    @ py_str donor_value))))"

section \<open>Entities and the store\<close>

text \<open>
  The persistence engine is an external collaborator. An entity instance is the
  in-memory object the executor is handed: its class and base classes, its primary key
  (\<open>PNone\<close> while unsaved), its data attributes, and the part of \<^verbatim>\<open>_meta\<close> the executor
  reads. The store keeps the rows (scalar columns, by model and primary key), the join
  tables of many-to-many relations, the foreign-key columns of one-to-many relations
  (kept per relation, apart from the scalar columns that \<^verbatim>\<open>profile.fields\<close> names), a log
  of the write operations it was asked to perform, and the audit records.
\<close>

record m2m_field =
  mf_name :: string
  mf_related_model :: string
  mf_through :: string

record relation =
  auto_created :: bool
  concrete :: bool
  many_to_many :: bool
  one_to_many :: bool
  has_field :: bool
  through :: string
  accessor_name :: string
  related_model :: string
  remote_field_name :: string

record model_instance =
  tname :: string
  bases :: "string list"
  pk :: pyval
  attrs :: pydict
  meta_many_to_many :: "m2m_field list"
  meta_get_fields :: "relation list"

definition isinstance :: "model_instance \<Rightarrow> string \<Rightarrow> bool" where
  "isinstance obj cls = (tname obj = cls \<or> cls \<in> set (bases obj))"

definition getattr :: "model_instance \<Rightarrow> string \<Rightarrow> error + pyval" where
  "getattr obj name =
     (case map_of (attrs obj) name of
        None \<Rightarrow> Inl (PyError ''AttributeError'' name)
      | Some v \<Rightarrow> Inr v)"

definition hasattr :: "model_instance \<Rightarrow> string \<Rightarrow> bool" where
  "hasattr obj name = (case map_of (attrs obj) name of None \<Rightarrow> False | Some v \<Rightarrow> True)"

definition setattr :: "model_instance \<Rightarrow> string \<Rightarrow> pyval \<Rightarrow> model_instance" where
  "setattr obj name v = obj\<lparr>attrs := dict_set (attrs obj) name v\<rparr>"

record summary =
  s_fields :: "(string \<times> pydict) list"
  s_relations :: "(string \<times> pydict) list"
  s_soft_delete :: pydict
  s_hard_delete :: pydict
  s_extra :: "pydict option"

record audit_kwargs =
  a_profile :: string
  a_target_content_type :: string
  a_target_object_id :: string
  a_donor_content_type :: string
  a_donor_object_id :: string
  a_status :: string
  a_dry_run :: bool
  a_summary :: summary
  a_message :: string
  a_initiator :: "pyval option"

datatype write_op =
    WSave string pyval "string list"
  | WAdd string bool pyval "pyval list"
  | WRemove string bool pyval "pyval list"
  | WUpdate string string pyval pyval
  | WDelete string pyval

record db =
  rows :: "((string \<times> pyval) \<times> pydict) list"
  m2m_links :: "(string \<times> pyval \<times> pyval) list"
  fk_links :: "((string \<times> string) \<times> pyval \<times> pyval) list"
  writes :: "write_op list"
  audit_rows :: "audit_kwargs list"

text \<open>\<^verbatim>\<open>obj.save(update_fields=fs)\<close>: an UPDATE of the named columns of the row of \<open>obj\<close>
  with the values its attributes hold.\<close>

fun save_cols :: "model_instance \<Rightarrow> string list \<Rightarrow> pydict \<Rightarrow> error + pydict" where
  "save_cols obj [] cols = Inr cols"
| "save_cols obj (f # fs) cols =
     (case map_of cols f of
        None \<Rightarrow> Inl (PyError ''ValueError'' ''The following fields do not exist in this model'')
      | Some old \<Rightarrow>
          (case getattr obj f of
             Inl e \<Rightarrow> Inl e
           | Inr v \<Rightarrow> save_cols obj fs (dict_set cols f v)))"

definition db_save :: "model_instance \<Rightarrow> string list \<Rightarrow> db \<Rightarrow> error + db" where
  "db_save obj update_fields d =
     (if pk obj = PNone
      then Inl (PyError ''ValueError'' ''Cannot force an update in save() with no primary key.'')
      else (case map_of (rows d) (tname obj, pk obj) of
              None \<Rightarrow> Inl (PyError ''DatabaseError''
                             ''Save with update_fields did not affect any rows.'')
            | Some cols \<Rightarrow>
                (case save_cols obj update_fields cols of
                   Inl e \<Rightarrow> Inl e
                 | Inr cols' \<Rightarrow>
                     Inr (d\<lparr>rows := dict_set (rows d) (tname obj, pk obj) cols',
                            writes := writes d @ [WSave (tname obj) (pk obj) update_fields]\<rparr>))))"

text \<open>
  \<^verbatim>\<open>obj.delete()\<close>: the row is removed, and with it what still references it through
  the relations of its \<^verbatim>\<open>_meta\<close>: the join-table links that start at it (its own
  many-to-many fields) or end at it (reverse many-to-many relations), and the rows and
  foreign keys of other models that point at it. Every \<^verbatim>\<open>on_delete\<close> is taken to be
  \<^verbatim>\<open>CASCADE\<close>, as in the models of tests.py, and the cascade is followed one level.
\<close>

definition cascade_link :: "model_instance \<Rightarrow> string \<times> pyval \<times> pyval \<Rightarrow> bool" where
  "cascade_link obj l =
     (list_ex (\<lambda>f. fst l = mf_through f \<and> fst (snd l) = pk obj) (meta_many_to_many obj)
      \<or> list_ex (\<lambda>rel. auto_created rel \<and> \<not> concrete rel \<and> many_to_many rel
                       \<and> fst l = through rel \<and> snd (snd l) = pk obj)
           (meta_get_fields obj))"

definition cascade_fk :: "model_instance \<Rightarrow> (string \<times> string) \<times> pyval \<times> pyval \<Rightarrow> bool" where
  "cascade_fk obj l =
     list_ex (\<lambda>rel. auto_created rel \<and> \<not> concrete rel \<and> \<not> many_to_many rel \<and> has_field rel
                   \<and> fst l = (related_model rel, remote_field_name rel)
                   \<and> snd (snd l) = pk obj)
       (meta_get_fields obj)"

definition db_delete :: "model_instance \<Rightarrow> db \<Rightarrow> error + db" where
  "db_delete obj d =
     (if pk obj = PNone
      then Inl (PyError ''ValueError'' ''object can't be deleted because its pk is None'')
      else Inr (d\<lparr>rows :=
                    filter (\<lambda>r. fst r \<noteq> (tname obj, pk obj)
                                \<and> \<not> list_ex (\<lambda>l. cascade_fk obj l
                                                  \<and> fst r = (fst (fst l), fst (snd l)))
                                       (fk_links d))
                      (rows d),
                  m2m_links := filter (\<lambda>l. \<not> cascade_link obj l) (m2m_links d),
                  fk_links := filter (\<lambda>l. \<not> cascade_fk obj l) (fk_links d),
                  writes := writes d @ [WDelete (tname obj) (pk obj)]\<rparr>))"

text \<open>A related manager of \<open>obj\<close>; Django refuses to build one for an unsaved instance.\<close>

definition related_manager :: "model_instance \<Rightarrow> error + pyval" where
  "related_manager obj =
     (if pk obj = PNone
      then Inl (PyError ''ValueError'' ''instance needs a primary key value before this relationship can be used'')
      else Inr (pk obj))"

text \<open>A link of a join table is a pair (from, to). The forward manager of an owner sees
  the links that start at it, the reverse manager those that end at it.\<close>

definition link_of :: "bool \<Rightarrow> pyval \<Rightarrow> pyval \<Rightarrow> pyval \<times> pyval" where
  "link_of forward owner other = (if forward then (owner, other) else (other, owner))"

definition values_list_pk :: "string \<Rightarrow> bool \<Rightarrow> pyval \<Rightarrow> db \<Rightarrow> pyval list" where
  "values_list_pk thr forward owner d =
     map (\<lambda>l. if forward then snd (snd l) else fst (snd l))
       (filter (\<lambda>l. fst l = thr \<and>
                     (if forward then fst (snd l) else snd (snd l)) = owner)
          (m2m_links d))"

fun add_links :: "string \<Rightarrow> bool \<Rightarrow> pyval \<Rightarrow> pyval list \<Rightarrow> (string \<times> pyval \<times> pyval) list
                  \<Rightarrow> (string \<times> pyval \<times> pyval) list" where
  "add_links thr forward owner [] ls = ls"
| "add_links thr forward owner (p # ps) ls =
     add_links thr forward owner ps
       (if (thr, link_of forward owner p) \<in> set ls then ls
        else ls @ [(thr, link_of forward owner p)])"

definition manager_add :: "string \<Rightarrow> bool \<Rightarrow> pyval \<Rightarrow> pyval list \<Rightarrow> db \<Rightarrow> db" where
  "manager_add thr forward owner pks d =
     d\<lparr>m2m_links := add_links thr forward owner pks (m2m_links d),
       writes := writes d @ [WAdd thr forward owner pks]\<rparr>"

definition manager_remove :: "string \<Rightarrow> bool \<Rightarrow> pyval \<Rightarrow> pyval list \<Rightarrow> db \<Rightarrow> db" where
  "manager_remove thr forward owner pks d =
     d\<lparr>m2m_links :=
         filter (\<lambda>l. \<not> (fst l = thr \<and> snd l \<in> set (map (link_of forward owner) pks)))
           (m2m_links d),
       writes := writes d @ [WRemove thr forward owner pks]\<rparr>"

text \<open>The reverse side of a foreign key \<open>fld\<close> of model \<open>rel\<close>: the rows that point at
  \<open>parent\<close>, and the bulk \<^verbatim>\<open>queryset.update(fld=target)\<close>.\<close>

definition queryset_count :: "string \<Rightarrow> string \<Rightarrow> pyval \<Rightarrow> db \<Rightarrow> nat" where
  "queryset_count rel fld parent d =
     length (filter (\<lambda>l. fst l = (rel, fld) \<and> snd (snd l) = parent) (fk_links d))"

definition queryset_update :: "string \<Rightarrow> string \<Rightarrow> pyval \<Rightarrow> model_instance \<Rightarrow> db \<Rightarrow> error + db" where
  "queryset_update rel fld parent new_parent d =
     (if pk new_parent = PNone
      then Inl (PyError ''ValueError'' ''Unsaved model instance cannot be used in an ORM query.'')
      else Inr (d\<lparr>fk_links :=
                    map (\<lambda>l. if fst l = (rel, fld) \<and> snd (snd l) = parent
                              then (fst l, fst (snd l), pk new_parent) else l)
                      (fk_links d),
                  writes := writes d @ [WUpdate rel fld parent (pk new_parent)]\<rparr>))"

section \<open>Profiles, settings and the registry (config.py, settings.py)\<close>

text \<open>
  A hook is caller code run for its effect: it may change the two instances, the store
  and the context dictionary it is handed, a post-hook also the result object, and it may
  raise. \<open>world\<close> is what a merge can change outside its own result and context.
\<close>

record world =
  w_target :: model_instance
  w_donor :: model_instance
  w_db :: db

record merge_result =
  dry_run :: bool
  changed_fields :: "(string \<times> pydict) list"
  relations :: "(string \<times> pydict) list"
  soft_delete :: pydict
  hard_delete :: pydict
  status :: string
  error_str :: "string option"
  audit_record :: "audit_kwargs option"

type_synonym pre_hook = "pydict \<Rightarrow> world \<Rightarrow> error option \<times> pydict \<times> world"
type_synonym post_hook =
  "merge_result \<Rightarrow> pydict \<Rightarrow> world \<Rightarrow> error option \<times> merge_result \<times> pydict \<times> world"

datatype strategy_ref =
    StrategyName string
  | StrategyCallable strategy_fn
  | StrategyOther pyval

record field_merge_rule =
  strategy :: strategy_ref
  allow_override :: bool
  description :: "string option"
  metadata :: pydict

datatype model_ref = ModelName string | ModelClass string

record merge_profile =
  label :: string
  model :: model_ref
  profile_fields :: "(string \<times> field_merge_rule) list"
  display_fields :: "string list"
  soft_delete_field :: "string option"
  soft_delete_value :: pyval
  hard_delete_enabled :: bool
  pre_merge_hooks :: "pre_hook list"
  post_merge_hooks :: "post_hook list"
  form_class :: "string option"

text \<open>The audit model is an external sink: \<open>am_create\<close> says whether
  \<^verbatim>\<open>objects.create(**kwargs)\<close> stores the record or raises.\<close>

record audit_model =
  am_has_initiator :: bool
  am_field_names :: "string list"
  am_create :: "audit_kwargs \<Rightarrow> error option"

text \<open>\<^verbatim>\<open>merge_manager_settings\<close>, with the two resolvers of Django the code calls:
  \<^verbatim>\<open>import_string\<close> on a dotted path and \<^verbatim>\<open>apps.get_model\<close> on a model label.\<close>

record settings =
  FIELD_STRATEGIES :: "(string \<times> strategy_fn) list"
  SOFT_DELETE_FIELD :: "string option"
  SOFT_DELETE_VALUE :: pyval
  DRY_RUN_DEFAULT :: bool
  AUDIT_MODEL :: "audit_model option"
  import_string :: "string \<Rightarrow> error + strategy_fn"
  get_model :: "string \<Rightarrow> error + string"

definition get_callable :: "settings \<Rightarrow> field_merge_rule \<Rightarrow> error + strategy_fn" where
  "get_callable env rule =
     (case strategy rule of
        StrategyCallable f \<Rightarrow> Inr f
      | StrategyName n \<Rightarrow>
          (case map_of (FIELD_STRATEGIES env) n of
             Some f \<Rightarrow> Inr f
           | None \<Rightarrow> import_string env n)
      | StrategyOther v \<Rightarrow>
          Inl (StrategyNotFoundError
                 (''Unable to resolve field merge strategy '' @ py_str v)))"

definition get_model_class :: "settings \<Rightarrow> merge_profile \<Rightarrow> error + string" where
  "get_model_class env p =
     (case model p of ModelName s \<Rightarrow> get_model env s | ModelClass c \<Rightarrow> Inr c)"

definition get_soft_delete_field :: "settings \<Rightarrow> merge_profile \<Rightarrow> string option" where
  "get_soft_delete_field env p =
     (case soft_delete_field p of Some f \<Rightarrow> Some f | None \<Rightarrow> SOFT_DELETE_FIELD env)"

definition get_soft_delete_value :: "settings \<Rightarrow> merge_profile \<Rightarrow> pyval" where
  "get_soft_delete_value env p =
     (if soft_delete_value p \<noteq> PNone then soft_delete_value p else SOFT_DELETE_VALUE env)"

record registry =
  profiles :: "string \<rightharpoonup> merge_profile"
  model_index :: "string \<rightharpoonup> merge_profile"

definition register :: "settings \<Rightarrow> registry \<Rightarrow> merge_profile \<Rightarrow> error + registry" where
  "register env reg p =
     (if label p = [] then Inl (InvalidProfileError ''Merge profile must define a label'')
      else (case get_model_class env p of
              Inl e \<Rightarrow> Inl e
            | Inr model_cls \<Rightarrow>
                Inr (reg\<lparr>profiles := (profiles reg)(label p \<mapsto> p),
                          model_index := (model_index reg)(model_cls \<mapsto> p)\<rparr>)))"

text \<open>\<^verbatim>\<open>unregister\<close> has popped the label when \<^verbatim>\<open>get_model_class\<close> raises, so the registry
  is returned beside the exception.\<close>

definition unregister :: "settings \<Rightarrow> registry \<Rightarrow> string \<Rightarrow> error option \<times> registry" where
  "unregister env reg lbl =
     (case profiles reg lbl of
        None \<Rightarrow> (None, reg)
      | Some p \<Rightarrow>
          (let reg' = reg\<lparr>profiles := (profiles reg)(lbl := None)\<rparr> in
           case get_model_class env p of
             Inl e \<Rightarrow> (Some e, reg')
           | Inr model_cls \<Rightarrow>
               (None, reg'\<lparr>model_index := (model_index reg')(model_cls := None)\<rparr>)))"

definition get :: "registry \<Rightarrow> string \<Rightarrow> error + merge_profile" where
  "get reg lbl =
     (case profiles reg lbl of
        Some p \<Rightarrow> Inr p
      | None \<Rightarrow>
          Inl (ProfileNotFoundError
                 (''Merge profile '' @ [CHR 0x27] @ lbl @ [CHR 0x27] @ '' is not registered'')))"

definition get_for_model :: "registry \<Rightarrow> string \<Rightarrow> error + merge_profile" where
  "get_for_model reg model_cls =
     (case model_index reg model_cls of
        Some p \<Rightarrow> Inr p
      | None \<Rightarrow>
          Inl (ProfileNotFoundError (''No merge profile registered for model '' @ model_cls)))"

definition clear :: "registry \<Rightarrow> registry" where
  "clear reg = reg\<lparr>profiles := Map.empty, model_index := Map.empty\<rparr>"

section \<open>The merge service (services/merge.py)\<close>

definition serialize_value :: "pyval \<Rightarrow> pyval" where
  "serialize_value v = (case v of PObj h s \<Rightarrow> PStr s | _ \<Rightarrow> v)"

definition validate_instances ::
  "settings \<Rightarrow> merge_profile \<Rightarrow> model_instance \<Rightarrow> model_instance \<Rightarrow> error option" where
  "validate_instances env p target donor =
     (case get_model_class env p of
        Inl e \<Rightarrow> Some e
      | Inr model_class \<Rightarrow>
          if \<not> isinstance target model_class
          then Some (MergeValidationError
                 (''Target instance must be '' @ model_class @ '', got '' @ tname target))
          else if \<not> isinstance donor model_class
          then Some (MergeValidationError
                 (''Donor instance must be '' @ model_class @ '', got '' @ tname donor))
          else None)"

text \<open>The context a strategy is called with. The rule and the copy of its metadata are
  objects of their own classes; the context holds them as opaque, unhashable objects.\<close>

fun setdefault_all :: "pydict \<Rightarrow> pydict \<Rightarrow> pydict" where
  "setdefault_all c [] = c"
| "setdefault_all c ((meta_key, meta_value) # m) =
     setdefault_all (dict_setdefault c meta_key meta_value) m"

definition strategy_context :: "pydict \<Rightarrow> string \<Rightarrow> field_merge_rule \<Rightarrow> pydict" where
  "strategy_context ctx field_name rule =
     (let c1 = dict_set ctx ''field'' (PStr field_name);
          c2 = dict_set c1 ''rule'' (PObj False ''FieldMergeRule'')
      in if metadata rule \<noteq> []
         then setdefault_all (dict_set c2 ''metadata'' (PObj False ''dict'')) (metadata rule)
         else c2)"

text \<open>The value a field is reconciled to, and where it came from: the first half of the
  loop body of \<^verbatim>\<open>_apply_field_updates\<close>.\<close>

definition field_value ::
  "settings \<Rightarrow> pydict \<Rightarrow> pydict \<Rightarrow> string \<Rightarrow> field_merge_rule \<Rightarrow> pyval \<Rightarrow> pyval
    \<Rightarrow> error + pyval \<times> string" where
  "field_value env overrides ctx field_name rule target_value donor_value =
     (case map_of overrides field_name of
        Some override_value \<Rightarrow> Inr (override_value, ''override'')
      | None \<Rightarrow>
          (case get_callable env rule of
             Inl e \<Rightarrow> Inl e
           | Inr strategy_callable \<Rightarrow>
               (case strategy_callable target_value donor_value
                       (strategy_context ctx field_name rule) of
                  Inl e \<Rightarrow> Inl e
                | Inr new_value \<Rightarrow> Inr (new_value, ''strategy''))))"

definition change_entry :: "pyval \<Rightarrow> pyval \<Rightarrow> string \<Rightarrow> pyval \<Rightarrow> pydict" where
  "change_entry target_value new_value source donor_value =
     [(''from'', serialize_value target_value),
      (''to'', serialize_value new_value),
      (''source'', PStr source),
      (''donor'', serialize_value donor_value)]"

fun field_loop ::
  "settings \<Rightarrow> pydict \<Rightarrow> bool \<Rightarrow> pydict \<Rightarrow> model_instance
    \<Rightarrow> (string \<times> field_merge_rule) list
    \<Rightarrow> model_instance \<Rightarrow> (string \<times> pydict) list \<Rightarrow> string list
    \<Rightarrow> (error + (string \<times> pydict) list \<times> string list) \<times> model_instance" where
  "field_loop env overrides dry ctx donor [] target changes update_fields =
     (Inr (changes, update_fields), target)"
| "field_loop env overrides dry ctx donor ((field_name, rule) # rest) target changes update_fields =
     (case getattr target field_name of
        Inl e \<Rightarrow> (Inl e, target)
      | Inr target_value \<Rightarrow>
     (case getattr donor field_name of
        Inl e \<Rightarrow> (Inl e, target)
      | Inr donor_value \<Rightarrow>
     (case field_value env overrides ctx field_name rule target_value donor_value of
        Inl e \<Rightarrow> (Inl e, target)
      | Inr (new_value, source) \<Rightarrow>
          if py_ne new_value target_value
          then (if \<not> dry
                then field_loop env overrides dry ctx donor rest
                       (setattr target field_name new_value)
                       (dict_set changes field_name
                          (change_entry target_value new_value source donor_value))
                       (update_fields @ [field_name])
                else field_loop env overrides dry ctx donor rest target
                       (dict_set changes field_name
                          (change_entry target_value new_value source donor_value))
                       update_fields)
          else field_loop env overrides dry ctx donor rest target changes update_fields)))"

definition apply_field_updates ::
  "settings \<Rightarrow> merge_profile \<Rightarrow> pydict \<Rightarrow> bool \<Rightarrow> pydict \<Rightarrow> world
    \<Rightarrow> (error + (string \<times> pydict) list) \<times> world" where
  "apply_field_updates env p overrides dry ctx w =
     (case field_loop env overrides dry ctx (w_donor w) (profile_fields p) (w_target w) [] [] of
        (Inl e, target) \<Rightarrow> (Inl e, w\<lparr>w_target := target\<rparr>)
      | (Inr (changes, update_fields), target) \<Rightarrow>
          if \<not> dry \<and> update_fields \<noteq> []
          then (case db_save target update_fields (w_db w) of
                  Inl e \<Rightarrow> (Inl e, w\<lparr>w_target := target\<rparr>)
                | Inr d \<Rightarrow> (Inr changes, w\<lparr>w_target := target, w_db := d\<rparr>))
          else (Inr changes, w\<lparr>w_target := target\<rparr>))"

definition relation_info :: "string \<Rightarrow> nat \<Rightarrow> string \<Rightarrow> pydict" where
  "relation_info type count rel_model =
     [(''type'', PStr type), (''count'', PInt (int count)), (''related_model'', PStr rel_model)]"

text \<open>The first loop of \<^verbatim>\<open>_transfer_relations\<close>, over \<^verbatim>\<open>donor._meta.many_to_many\<close>.\<close>

fun m2m_loop ::
  "model_instance \<Rightarrow> model_instance \<Rightarrow> bool \<Rightarrow> m2m_field list
    \<Rightarrow> (string \<times> pydict) list \<Rightarrow> string set \<Rightarrow> db
    \<Rightarrow> (error + (string \<times> pydict) list \<times> string set) \<times> db" where
  "m2m_loop target donor dry [] relations_info processed_through d =
     (Inr (relations_info, processed_through), d)"
| "m2m_loop target donor dry (field # rest) relations_info processed_through d =
     (case related_manager donor of
        Inl e \<Rightarrow> (Inl e, d)
      | Inr donor_pk \<Rightarrow>
     (case related_manager target of
        Inl e \<Rightarrow> (Inl e, d)
      | Inr target_pk \<Rightarrow>
          m2m_loop target donor dry rest
            (dict_set relations_info (mf_name field)
               (relation_info ''many_to_many''
                  (length (values_list_pk (mf_through field) True donor_pk d))
                  (mf_related_model field)))
            (insert (mf_through field) processed_through)
            (if \<not> dry \<and> values_list_pk (mf_through field) True donor_pk d \<noteq> []
             then manager_remove (mf_through field) True donor_pk
                    (values_list_pk (mf_through field) True donor_pk d)
                    (manager_add (mf_through field) True target_pk
                       (values_list_pk (mf_through field) True donor_pk d) d)
             else d)))"

text \<open>The second loop, over \<^verbatim>\<open>donor._meta.get_fields()\<close>.\<close>

fun rel_loop ::
  "model_instance \<Rightarrow> model_instance \<Rightarrow> bool \<Rightarrow> relation list
    \<Rightarrow> (string \<times> pydict) list \<Rightarrow> string set \<Rightarrow> db
    \<Rightarrow> (error + (string \<times> pydict) list \<times> string set) \<times> db" where
  "rel_loop target donor dry [] relations_info processed_through d =
     (Inr (relations_info, processed_through), d)"
| "rel_loop target donor dry (rel # rest) relations_info processed_through d =
     (if \<not> auto_created rel \<or> concrete rel
      then rel_loop target donor dry rest relations_info processed_through d
      else if many_to_many rel
      then (if through rel \<in> processed_through
            then rel_loop target donor dry rest relations_info processed_through d
            else (case related_manager donor of
                    Inl e \<Rightarrow> (Inl e, d)
                  | Inr donor_pk \<Rightarrow>
                 (case related_manager target of
                    Inl e \<Rightarrow> (Inl e, d)
                  | Inr target_pk \<Rightarrow>
                      rel_loop target donor dry rest
                        (dict_set relations_info (accessor_name rel)
                           (relation_info ''many_to_many_reverse''
                              (length (values_list_pk (through rel) False donor_pk d))
                              (related_model rel)))
                        (insert (through rel) processed_through)
                        (if \<not> dry \<and> values_list_pk (through rel) False donor_pk d \<noteq> []
                         then manager_remove (through rel) False donor_pk
                                (values_list_pk (through rel) False donor_pk d)
                                (manager_add (through rel) False target_pk
                                   (values_list_pk (through rel) False donor_pk d) d)
                         else d))))
      else if one_to_many rel \<and> has_field rel
      then (case related_manager donor of
              Inl e \<Rightarrow> (Inl e, d)
            | Inr donor_pk \<Rightarrow>
                if \<not> dry \<and> queryset_count (related_model rel) (remote_field_name rel) donor_pk d \<noteq> 0
                then (case queryset_update (related_model rel) (remote_field_name rel) donor_pk target d of
                        Inl e \<Rightarrow> (Inl e, d)
                      | Inr d' \<Rightarrow>
                          rel_loop target donor dry rest
                            (dict_set relations_info (accessor_name rel)
                               (relation_info ''one_to_many''
                                  (queryset_count (related_model rel) (remote_field_name rel) donor_pk d)
                                  (related_model rel)))
                            processed_through d')
                else rel_loop target donor dry rest
                       (dict_set relations_info (accessor_name rel)
                          (relation_info ''one_to_many''
                             (queryset_count (related_model rel) (remote_field_name rel) donor_pk d)
                             (related_model rel)))
                       processed_through d)
      else rel_loop target donor dry rest relations_info processed_through d)"

definition transfer_relations ::
  "bool \<Rightarrow> world \<Rightarrow> (error + (string \<times> pydict) list) \<times> world" where
  "transfer_relations dry w =
     (case m2m_loop (w_target w) (w_donor w) dry (meta_many_to_many (w_donor w)) [] {} (w_db w) of
        (Inl e, d) \<Rightarrow> (Inl e, w\<lparr>w_db := d\<rparr>)
      | (Inr (relations_info, processed_through), d) \<Rightarrow>
          (case rel_loop (w_target w) (w_donor w) dry (meta_get_fields (w_donor w))
                  relations_info processed_through d of
             (Inl e, d') \<Rightarrow> (Inl e, w\<lparr>w_db := d'\<rparr>)
           | (Inr (relations_info', processed_through'), d') \<Rightarrow>
               (Inr relations_info', w\<lparr>w_db := d'\<rparr>)))"

definition apply_soft_delete ::
  "settings \<Rightarrow> merge_profile \<Rightarrow> bool \<Rightarrow> world \<Rightarrow> (error + pydict) \<times> world" where
  "apply_soft_delete env p dry w =
     (case get_soft_delete_field env p of
        None \<Rightarrow> (Inr [(''applied'', PBool False), (''reason'', PStr ''soft_delete_disabled'')], w)
      | Some fname \<Rightarrow>
          if fname = []
          then (Inr [(''applied'', PBool False), (''reason'', PStr ''soft_delete_disabled'')], w)
          else if \<not> hasattr (w_donor w) fname
          then (Inr [(''applied'', PBool False), (''reason'', PStr ''field_missing''),
                     (''field'', PStr fname)], w)
          else (case getattr (w_donor w) fname of
                  Inl e \<Rightarrow> (Inl e, w)
                | Inr previous_value \<Rightarrow>
                    if dry
                    then (Inr [(''applied'', PBool True), (''field'', PStr fname),
                               (''from'', serialize_value previous_value),
                               (''to'', serialize_value (get_soft_delete_value env p)),
                               (''dry_run'', PBool dry)], w)
                    else (case db_save (setattr (w_donor w) fname (get_soft_delete_value env p))
                                 [fname] (w_db w) of
                            Inl e \<Rightarrow>
                              (Inl e, w\<lparr>w_donor :=
                                           setattr (w_donor w) fname (get_soft_delete_value env p)\<rparr>)
                          | Inr d \<Rightarrow>
                              (Inr [(''applied'', PBool True), (''field'', PStr fname),
                                    (''from'', serialize_value previous_value),
                                    (''to'', serialize_value (get_soft_delete_value env p)),
                                    (''dry_run'', PBool dry)],
                               w\<lparr>w_donor :=
                                    setattr (w_donor w) fname (get_soft_delete_value env p),
                                  w_db := d\<rparr>))))"

fun run_pre_hooks ::
  "pre_hook list \<Rightarrow> pydict \<Rightarrow> world \<Rightarrow> error option \<times> pydict \<times> world" where
  "run_pre_hooks [] ctx w = (None, ctx, w)"
| "run_pre_hooks (hook # hooks) ctx w =
     (case hook ctx w of
        (Some e, ctx', w') \<Rightarrow> (Some e, ctx', w')
      | (None, ctx', w') \<Rightarrow> run_pre_hooks hooks ctx' w')"

fun run_post_hooks ::
  "post_hook list \<Rightarrow> merge_result \<Rightarrow> pydict \<Rightarrow> world
    \<Rightarrow> error option \<times> merge_result \<times> pydict \<times> world" where
  "run_post_hooks [] result ctx w = (None, result, ctx, w)"
| "run_post_hooks (hook # hooks) result ctx w =
     (case hook result ctx w of
        (Some e, result', ctx', w') \<Rightarrow> (Some e, result', ctx', w')
      | (None, result', ctx', w') \<Rightarrow> run_post_hooks hooks result' ctx' w')"

text \<open>The last step of \<^verbatim>\<open>_execute\<close>, after the post-hooks. A deleted instance loses its
  primary key, as Django's \<^verbatim>\<open>delete()\<close> leaves it.\<close>

definition hard_delete_step ::
  "merge_profile \<Rightarrow> merge_result \<Rightarrow> world \<Rightarrow> error option \<times> merge_result \<times> world" where
  "hard_delete_step p result w =
     (if hard_delete_enabled p
      then (if \<not> dry_run result
            then (case db_delete (w_donor w) (w_db w) of
                    Inl e \<Rightarrow>
                      (Some e,
                       result\<lparr>hard_delete := [(''enabled'', PBool True), (''applied'', PBool False),
                                               (''dry_run'', PBool (dry_run result))]\<rparr>,
                       w)
                  | Inr d \<Rightarrow>
                      (None,
                       result\<lparr>hard_delete :=
                         dict_update
                           [(''enabled'', PBool True), (''applied'', PBool False),
                            (''dry_run'', PBool (dry_run result))]
                           [(''applied'', PBool True),
                            (''pk'', if pk (w_donor w) \<noteq> PNone
                                     then PStr (py_str (pk (w_donor w))) else PNone)]\<rparr>,
                       w\<lparr>w_donor := (w_donor w)\<lparr>pk := PNone\<rparr>, w_db := d\<rparr>))
            else (None,
                  result\<lparr>hard_delete := [(''enabled'', PBool True), (''applied'', PBool False),
                                          (''dry_run'', PBool (dry_run result))]\<rparr>,
                  w))
      else (None,
            result\<lparr>hard_delete := [(''enabled'', PBool False), (''applied'', PBool False),
                                    (''dry_run'', PBool (dry_run result))]\<rparr>,
            w))"

definition execute ::
  "settings \<Rightarrow> merge_profile \<Rightarrow> pydict \<Rightarrow> pydict \<Rightarrow> merge_result \<Rightarrow> world
    \<Rightarrow> error option \<times> merge_result \<times> world" where
  "execute env p overrides ctx result w =
     (case run_pre_hooks (pre_merge_hooks p) ctx w of
        (Some e, c1, w1) \<Rightarrow> (Some e, result, w1)
      | (None, c1, w1) \<Rightarrow>
     (case apply_field_updates env p overrides (dry_run result) c1 w1 of
        (Inl e, w2) \<Rightarrow> (Some e, result, w2)
      | (Inr changes, w2) \<Rightarrow>
     (case transfer_relations (dry_run result) w2 of
        (Inl e, w3) \<Rightarrow> (Some e, result\<lparr>changed_fields := changes\<rparr>, w3)
      | (Inr rels, w3) \<Rightarrow>
     (case (if hard_delete_enabled p
            then (Inr [(''applied'', PBool False), (''reason'', PStr ''hard_delete_enabled''),
                       (''dry_run'', PBool (dry_run result))], w3)
            else apply_soft_delete env p (dry_run result) w3) of
        (Inl e, w4) \<Rightarrow> (Some e, result\<lparr>changed_fields := changes, relations := rels\<rparr>, w4)
      | (Inr sd, w4) \<Rightarrow>
     (case run_post_hooks (post_merge_hooks p)
             (result\<lparr>changed_fields := changes, relations := rels, soft_delete := sd\<rparr>) c1 w4 of
        (Some e, r5, c5, w5) \<Rightarrow> (Some e, r5, w5)
      | (None, r5, c5, w5) \<Rightarrow> hard_delete_step p r5 w5)))))"

definition write_audit ::
  "settings \<Rightarrow> merge_profile \<Rightarrow> merge_result \<Rightarrow> world \<Rightarrow> pyval \<Rightarrow> pydict option
    \<Rightarrow> error + merge_result \<times> db" where
  "write_audit env p result w user extra_summary =
     (case AUDIT_MODEL env of
        None \<Rightarrow> Inr (result, w_db w)
      | Some am \<Rightarrow>
          (let kwargs =
                 \<lparr>a_profile = label p,
                  a_target_content_type = tname (w_target w),
                  a_target_object_id = py_str (pk (w_target w)),
                  a_donor_content_type = tname (w_donor w),
                  a_donor_object_id = py_str (pk (w_donor w)),
                  a_status = status result,
                  a_dry_run = dry_run result,
                  a_summary =
                    \<lparr>s_fields = changed_fields result,
                     s_relations = relations result,
                     s_soft_delete = soft_delete result,
                     s_hard_delete = hard_delete result,
                     s_extra =
                       (case extra_summary of
                          None \<Rightarrow> None
                        | Some ex \<Rightarrow>
                            if ex = [] then None
                            else Some (map (\<lambda>kv. (fst kv, serialize_value (snd kv))) ex))\<rparr>,
                  a_message = (case error_str result of None \<Rightarrow> [] | Some m \<Rightarrow> m),
                  a_initiator =
                    (if user \<noteq> PNone \<and>
                        (am_has_initiator am \<or> ''initiator'' \<in> set (am_field_names am))
                     then Some user else None)\<rparr>
           in case am_create am kwargs of
                Some e \<Rightarrow> Inl e
              | None \<Rightarrow>
                  Inr (result\<lparr>audit_record := Some kwargs\<rparr>,
                       (w_db w)\<lparr>audit_rows := audit_rows (w_db w) @ [kwargs]\<rparr>)))"

definition new_result :: "bool \<Rightarrow> merge_result" where
  "new_result dry =
     \<lparr>dry_run = dry, changed_fields = [], relations = [], soft_delete = [],
      hard_delete = [], status = ''completed'', error_str = None, audit_record = None\<rparr>"

definition base_context :: "pydict option \<Rightarrow> bool \<Rightarrow> pydict" where
  "base_context ctx dry =
     dict_update (case ctx of None \<Rightarrow> [] | Some c \<Rightarrow> c)
       [(''profile'', PObj False ''MergeProfile''), (''dry_run'', PBool dry)]"

text \<open>
  \<^verbatim>\<open>MergeService(profile).merge(target, donor, user=, dry_run=, field_overrides=,
  extra_summary=, context=)\<close>. The two instances and the store come in and go out as the
  world; the outcome is the exception raised or the result returned. A failure inside
  \<^verbatim>\<open>transaction.atomic()\<close> restores the store the merge started from; the instances keep
  what was assigned to them.
\<close>

definition merge ::
  "settings \<Rightarrow> merge_profile \<Rightarrow> pyval \<Rightarrow> bool option \<Rightarrow> pydict option \<Rightarrow> pydict option
    \<Rightarrow> pydict option \<Rightarrow> world \<Rightarrow> (error + merge_result) \<times> world" where
  "merge env p user dry_run_arg field_overrides extra_summary ctx w =
     (let dry = (case dry_run_arg of None \<Rightarrow> DRY_RUN_DEFAULT env | Some b \<Rightarrow> b);
          overrides = (case field_overrides of None \<Rightarrow> [] | Some ov \<Rightarrow> ov)
      in case validate_instances env p (w_target w) (w_donor w) of
           Some e \<Rightarrow> (Inl e, w)
         | None \<Rightarrow>
             (case execute env p overrides (base_context ctx dry) (new_result dry) w of
                (Some exc, r1, w1) \<Rightarrow>
                  (case write_audit env p
                          (r1\<lparr>status := ''failed'', error_str := Some (exc_str exc)\<rparr>)
                          (if dry then w1 else w1\<lparr>w_db := w_db w\<rparr>) user extra_summary of
                     Inl e2 \<Rightarrow> (Inl e2, if dry then w1 else w1\<lparr>w_db := w_db w\<rparr>)
                   | Inr (r3, d3) \<Rightarrow> (Inl exc, w1\<lparr>w_db := d3\<rparr>))
              | (None, r1, w1) \<Rightarrow>
                  (case write_audit env p
                          (r1\<lparr>status := (if dry then ''dry_run'' else ''completed'')\<rparr>)
                          w1 user extra_summary of
                     Inl e2 \<Rightarrow> (Inl e2, w1)
                   | Inr (r3, d3) \<Rightarrow> (Inr r3, w1\<lparr>w_db := d3\<rparr>))))"

text \<open>The settings of \<^verbatim>\<open>DEFAULTS\<close>, with the audit model of models.py (it has an
  \<^verbatim>\<open>initiator\<close> field and stores every record) and no further importable names.\<close>

definition merge_operation :: audit_model where
  "merge_operation =
     \<lparr>am_has_initiator = True,
      am_field_names = [''id'', ''profile'', ''target_content_type'', ''target_object_id'',
        ''donor_content_type'', ''donor_object_id'', ''initiator'', ''status'', ''dry_run'',
        ''summary'', ''message'', ''created_at'', ''updated_at''],
      am_create = (\<lambda>kwargs. None)\<rparr>"

definition default_settings :: settings where
  "default_settings =
     \<lparr>FIELD_STRATEGIES =
        [(''prefer_target'', prefer_target), (''prefer_donor'', prefer_donor),
         (''prefer_non_null'', prefer_non_null), (''concat'', concat_strategy)],
      SOFT_DELETE_FIELD = Some ''is_active'',
      SOFT_DELETE_VALUE = PBool False,
      DRY_RUN_DEFAULT = False,
      AUDIT_MODEL = Some merge_operation,
      import_string = (\<lambda>path. Inl (PyError ''ImportError'' path)),
      get_model = (\<lambda>name. Inl (PyError ''LookupError'' name))\<rparr>"

section \<open>Example data\<close>

text \<open>The models of tests.py: cities with a many-to-many field \<^verbatim>\<open>tags\<close> and offices that
  point at a city, a target (pk 1) and a donor (pk 2), and the profile of the tests.\<close>

definition ex_rule :: "string \<Rightarrow> field_merge_rule" where
  "ex_rule s = \<lparr>strategy = StrategyName s, allow_override = True, description = None, metadata = []\<rparr>"

definition ex_city :: "int \<Rightarrow> string \<Rightarrow> string \<Rightarrow> int \<Rightarrow> model_instance" where
  "ex_city i n c pop =
     \<lparr>tname = ''City'', bases = [''Model'', ''object''], pk = PInt i,
      attrs = [(''name'', PStr n), (''code'', PStr c), (''population'', PInt pop),
               (''is_active'', PBool True)],
      meta_many_to_many =
        [\<lparr>mf_name = ''tags'', mf_related_model = ''merge_manager.Tag'',
          mf_through = ''City_tags''\<rparr>],
      meta_get_fields =
        [\<lparr>auto_created = True, concrete = True, many_to_many = False, one_to_many = False,
          has_field = False, through = [], accessor_name = [], related_model = [],
          remote_field_name = []\<rparr>,
         \<lparr>auto_created = True, concrete = False, many_to_many = False, one_to_many = True,
          has_field = True, through = [], accessor_name = ''offices'',
          related_model = ''merge_manager.Office'', remote_field_name = ''city''\<rparr>]\<rparr>"

definition ex_profile :: merge_profile where
  "ex_profile =
     \<lparr>label = ''city'', model = ModelClass ''City'',
      profile_fields = [(''name'', ex_rule ''prefer_target''),
                        (''code'', ex_rule ''prefer_non_null''),
                        (''population'', ex_rule ''prefer_donor'')],
      display_fields = [], soft_delete_field = None, soft_delete_value = PNone,
      hard_delete_enabled = False, pre_merge_hooks = [], post_merge_hooks = [],
      form_class = None\<rparr>"

definition ex_db :: db where
  "ex_db =
     \<lparr>rows = [((''City'', PInt 1), attrs (ex_city 1 ''Target'' [] 100)),
              ((''City'', PInt 2), attrs (ex_city 2 ''Donor'' ''DN'' 250))],
      m2m_links = [(''City_tags'', PInt 1, PInt 10), (''City_tags'', PInt 2, PInt 11)],
      fk_links = [((''merge_manager.Office'', ''city''), PInt 5, PInt 2)],
      writes = [], audit_rows = []\<rparr>"

definition ex_world :: world where
  "ex_world = \<lparr>w_target = ex_city 1 ''Target'' [] 100, w_donor = ex_city 2 ''Donor'' ''DN'' 250,
               w_db = ex_db\<rparr>"

definition ex_stranger :: model_instance where
  "ex_stranger = \<lparr>tname = ''object'', bases = [], pk = PNone, attrs = [],
                  meta_many_to_many = [], meta_get_fields = []\<rparr>"

definition empty_registry :: registry where
  "empty_registry = \<lparr>profiles = Map.empty, model_index = Map.empty\<rparr>"








definition ex_failing_hook :: pre_hook where
  "ex_failing_hook ctx w = (Some (PyError ''RuntimeError'' ''hook failed''), ctx, w)"

definition ex_failing_profile :: merge_profile where
  "ex_failing_profile = ex_profile\<lparr>pre_merge_hooks := [ex_failing_hook]\<rparr>"

definition ex_broken_audit_settings :: settings where
  "ex_broken_audit_settings =
     default_settings\<lparr>AUDIT_MODEL :=
       Some (merge_operation\<lparr>am_create :=
         (\<lambda>kwargs. Some (PyError ''DatabaseError'' ''audit table is unavailable''))\<rparr>)\<rparr>"


section \<open>Vocabulary of the statements\<close>

text \<open>The entries of \<^verbatim>\<open>get_fields()\<close> the second loop of \<^verbatim>\<open>_transfer_relations\<close> acts on: the
  reverse side of a many-to-many field, and the reverse side of a foreign key, which is
  identified in the store by the model and the field that hold the key.\<close>

definition is_reverse_m2m :: "relation \<Rightarrow> bool" where
  "is_reverse_m2m rel = (auto_created rel \<and> \<not> concrete rel \<and> many_to_many rel)"

definition is_reverse_fk :: "relation \<Rightarrow> bool" where
  "is_reverse_fk rel =
     (auto_created rel \<and> \<not> concrete rel \<and> \<not> many_to_many rel \<and> one_to_many rel \<and> has_field rel)"

definition fk_key :: "relation \<Rightarrow> string \<times> string" where
  "fk_key rel = (related_model rel, remote_field_name rel)"

text \<open>The join tables a write log added links to through a reverse manager, in order.\<close>

fun reverse_adds :: "write_op list \<Rightarrow> string list" where
  "reverse_adds [] = []"
| "reverse_adds (WAdd thr forward owner pks # ws) =
     (if forward then reverse_adds ws else thr # reverse_adds ws)"
| "reverse_adds (WSave m k fs # ws) = reverse_adds ws"
| "reverse_adds (WRemove thr forward owner pks # ws) = reverse_adds ws"
| "reverse_adds (WUpdate rel fld a b # ws) = reverse_adds ws"
| "reverse_adds (WDelete m k # ws) = reverse_adds ws"

text \<open>The links of one join table, and the foreign keys of one relation, in a store.\<close>

definition links_of :: "string \<Rightarrow> db \<Rightarrow> (string \<times> pyval \<times> pyval) list" where
  "links_of thr d = filter (\<lambda>l. fst l = thr) (m2m_links d)"

definition fks_of :: "string \<times> string \<Rightarrow> db \<Rightarrow> ((string \<times> string) \<times> pyval \<times> pyval) list" where
  "fks_of k d = filter (\<lambda>l. fst l = k) (fk_links d)"







lemmas ex_defs = ex_rule_def ex_city_def ex_profile_def ex_db_def ex_world_def ex_stranger_def
  empty_registry_def default_settings_def merge_operation_def

section \<open>The built-in strategies\<close>

lemma is_empty_hashable:
  "hashable v \<Longrightarrow> is_empty v = Inr (v = PNone \<or> v = PStr '''')"
  by (simp add: is_empty_def)

text \<open>On hashable values the four strategies are what their docstrings say.\<close>

lemma builtin_strategies_on_hashable:
  assumes "hashable t" and "hashable d"
  shows "prefer_target t d c = Inr (if t = PNone \<or> t = PStr '''' then d else t)"
    and "prefer_donor t d c = Inr d"
    and "prefer_non_null t d c = Inr (if t = PNone \<or> t = PStr '''' then d else t)"
    and "concat_strategy t d c =
           Inr (if t = PNone \<or> t = PStr '''' then d
                else if d = PNone \<or> d = PStr '''' then t
                else PStr (py_str t
                           @ py_str (case map_of c ''separator'' of
                                       None \<Rightarrow> PStr '' '' | Some s \<Rightarrow> s)
                           @ py_str d))"
  using assms
  by (simp_all add: prefer_target_def prefer_donor_def prefer_non_null_def concat_strategy_def
        is_empty_hashable)

text \<open>
  C5. The claim reads: for all target and donor values, \<^verbatim>\<open>prefer_target\<close> returns the target
  value unless it is \<^verbatim>\<open>None\<close> or the empty string, \<^verbatim>\<open>prefer_non_null\<close> likewise, and
  \<^verbatim>\<open>concat\<close> returns the other side when one side is empty and joins the two otherwise. For
  a target value that is not hashable (the list of a JSON column), which is not empty,
  \<^verbatim>\<open>prefer_target\<close> and \<^verbatim>\<open>prefer_non_null\<close> raise \<^verbatim>\<open>TypeError\<close> instead of returning it,
  and \<^verbatim>\<open>concat\<close> raises for such a donor value; \<^verbatim>\<open>concat("a", "b")\<close> is \<^verbatim>\<open>"a b"\<close>.
\<close>

theorem strategies_raise_on_unhashable:
  "prefer_target (PObj False ''[1]'') (PStr ''x'') []
     = Inl (PyError ''TypeError'' ''unhashable type'')
   \<and> prefer_non_null (PObj False ''[1]'') (PStr ''x'') []
     = Inl (PyError ''TypeError'' ''unhashable type'')
   \<and> concat_strategy (PStr ''a'') (PObj False ''[1]'') []
     = Inl (PyError ''TypeError'' ''unhashable type'')
   \<and> concat_strategy (PStr ''a'') (PStr ''b'') [] = Inr (PStr ''a b'')"
  by (simp add: prefer_target_def prefer_non_null_def concat_strategy_def is_empty_def)

section \<open>The registry\<close>

text \<open>
  C10. When two profiles with distinct, non-empty labels and the same model class are
  registered one after the other, both labels resolve and the model class resolves to the
  second profile; unregistering the first label then also removes the model-class entry,
  which pointed at the second profile: the second label still resolves to its profile,
  and \<^verbatim>\<open>get_for_model\<close> of the class raises \<^verbatim>\<open>ProfileNotFoundError\<close>.
\<close>

theorem unregister_drops_shared_model_index:
  assumes "label A \<noteq> label B" and "label A \<noteq> []" and "label B \<noteq> []"
    and "get_model_class env A = Inr c" and "get_model_class env B = Inr c"
  shows "\<exists>r1 r2 r3.
           register env reg A = Inr r1 \<and> register env r1 B = Inr r2
         \<and> get r2 (label A) = Inr A \<and> get r2 (label B) = Inr B \<and> get_for_model r2 c = Inr B
         \<and> unregister env r2 (label A) = (None, r3)
         \<and> get r3 (label B) = Inr B
         \<and> get_for_model r3 c =
             Inl (ProfileNotFoundError (''No merge profile registered for model '' @ c))"
  using assms
  by (simp add: register_def unregister_def get_def get_for_model_def)

theorem unregister_drops_shared_model_index_witness:
  "\<exists>r1 r2 r3.
      register default_settings empty_registry ex_profile = Inr r1
    \<and> register default_settings r1 (ex_profile\<lparr>label := ''city-hard-delete''\<rparr>) = Inr r2
    \<and> get r2 ''city'' = Inr ex_profile
    \<and> get r2 ''city-hard-delete'' = Inr (ex_profile\<lparr>label := ''city-hard-delete''\<rparr>)
    \<and> get_for_model r2 ''City'' = Inr (ex_profile\<lparr>label := ''city-hard-delete''\<rparr>)
    \<and> unregister default_settings r2 ''city'' = (None, r3)
    \<and> get r3 ''city-hard-delete'' = Inr (ex_profile\<lparr>label := ''city-hard-delete''\<rparr>)
    \<and> get_for_model r3 ''City'' =
        Inl (ProfileNotFoundError ''No merge profile registered for model City'')"
  using unregister_drops_shared_model_index
          [of ex_profile "ex_profile\<lparr>label := ''city-hard-delete''\<rparr>" default_settings
              "''City''" empty_registry]
  by (simp add: get_model_class_def ex_profile_def)

section \<open>Validation\<close>

text \<open>
  C2. When the profile's model class resolves and the target or the donor is not an
  instance of it, \<^verbatim>\<open>merge\<close> raises \<^verbatim>\<open>MergeValidationError\<close> and the world is the one it was
  called in: no attribute of either instance is assigned, the store has the same rows,
  links and write log (no write was issued), and it holds no new audit record; no result
  is returned.
\<close>

theorem merge_rejects_wrong_type:
  assumes "get_model_class env p = Inr c"
    and "\<not> isinstance (w_target w) c \<or> \<not> isinstance (w_donor w) c"
  shows "\<exists>m. merge env p user dry_run_arg field_overrides extra_summary ctx w
             = (Inl (MergeValidationError m), w)"
  using assms
  by (auto simp add: merge_def validate_instances_def)

theorem merge_rejects_wrong_type_witness:
  "get_model_class default_settings ex_profile = Inr ''City''
   \<and> \<not> isinstance ex_stranger ''City''
   \<and> (\<exists>m. merge default_settings ex_profile PNone None None None None
              (ex_world\<lparr>w_target := ex_stranger\<rparr>)
            = (Inl (MergeValidationError m), ex_world\<lparr>w_target := ex_stranger\<rparr>))"
  using merge_rejects_wrong_type
          [of default_settings ex_profile "''City''" "ex_world\<lparr>w_target := ex_stranger\<rparr>"
              PNone None None None None]
  by (simp add: get_model_class_def isinstance_def ex_profile_def ex_stranger_def)

section \<open>Field reconciliation\<close>

lemma map_of_dict_set [simp]:
  "map_of (dict_set d k v) k' = (if k' = k then Some v else map_of d k')"
  by (induction d) auto



lemma getattr_setattr [simp]:
  "getattr (setattr obj f v) g = (if g = f then Inr v else getattr obj g)"
  by (simp add: getattr_def setattr_def)


lemma setattr_frame [simp]:
  "pk (setattr obj f v) = pk obj" "tname (setattr obj f v) = tname obj"
  "bases (setattr obj f v) = bases obj"
  "meta_many_to_many (setattr obj f v) = meta_many_to_many obj"
  "meta_get_fields (setattr obj f v) = meta_get_fields obj"
  by (simp_all add: setattr_def)


lemma field_loop_dry_uf:
  "field_loop env ov True ctx donor fs target ch uf = (Inr (ch', uf'), target') \<Longrightarrow> uf' = uf"
  by (induction fs arbitrary: target ch uf)
     (auto split: sum.splits prod.splits if_splits)

lemma field_loop_frame:
  "field_loop env ov dry ctx donor fs target ch uf = (r, target') \<Longrightarrow>
   pk target' = pk target \<and> tname target' = tname target \<and> bases target' = bases target
   \<and> meta_many_to_many target' = meta_many_to_many target
   \<and> meta_get_fields target' = meta_get_fields target"
  by (induction fs arbitrary: target ch uf)
     (auto split: sum.splits prod.splits if_splits)







lemmas run_defs = apply_field_updates_def getattr_def hasattr_def setattr_def field_value_def
  get_callable_def prefer_target_def prefer_donor_def prefer_non_null_def concat_strategy_def
  is_empty_def py_ne_def py_eq_def change_entry_def serialize_value_def db_save_def
  db_delete_def cascade_link_def cascade_fk_def strategy_context_def transfer_relations_def related_manager_def
  values_list_pk_def manager_add_def manager_remove_def link_of_def queryset_count_def
  queryset_update_def relation_info_def apply_soft_delete_def get_soft_delete_field_def
  get_soft_delete_value_def hard_delete_step_def execute_def write_audit_def new_result_def
  base_context_def merge_def validate_instances_def get_model_class_def isinstance_def
  dict_setdefault_def













section \<open>The executor: dry runs, steps and outcomes\<close>








lemma apply_field_updates_target_frame:
  "apply_field_updates env p ov dry ctx w = (r, w') \<Longrightarrow>
   pk (w_target w') = pk (w_target w) \<and> tname (w_target w') = tname (w_target w)"
  by (auto simp: apply_field_updates_def split: prod.splits sum.splits if_splits
           dest: field_loop_frame)



lemma map_of_filter_key:
  "map_of (filter (\<lambda>r. fst r \<noteq> k) xs) k' = (if k' = k then None else map_of xs k')"
  by (induction xs) auto


lemma hard_delete_step_sections:
  assumes "hard_delete_step p r w = (x, r', w')"
  shows "soft_delete r' = soft_delete r" and "changed_fields r' = changed_fields r"
    and "relations r' = relations r" and "dry_run r' = dry_run r"
  using assms by (auto simp: hard_delete_step_def split: if_splits sum.splits)



lemma write_audit_result:
  assumes "write_audit env p r w user ex = Inr (r', d')"
  shows "r' = r\<lparr>audit_record := audit_record r'\<rparr>"
    and "d' = (w_db w)\<lparr>audit_rows := audit_rows d'\<rparr>"
  using assms
  by (auto simp: write_audit_def Let_def split: option.splits)



section \<open>Retiring the donor by deletion\<close>




section \<open>Failures and the audit record\<close>

lemma execute_dry_run:
  "post_merge_hooks p = [] \<Longrightarrow> execute env p ov c r w = (x, r', w') \<Longrightarrow>
   dry_run r' = dry_run r"
  unfolding execute_def
  by (auto split: prod.splits sum.splits option.splits if_splits
           dest: hard_delete_step_sections(4))

text \<open>
  C3. The claim reads: when a step of \<^verbatim>\<open>_execute\<close> raises, the result is marked failed, an
  audit record is written, the original exception is re-raised, and a failure to write
  the audit record is swallowed and never replaces the original exception. \<^verbatim>\<open>merge\<close> calls
  \<^verbatim>\<open>_write_audit\<close> inside its \<^verbatim>\<open>except\<close> block with nothing around it. Here a pre-hook
  raises \<^verbatim>\<open>RuntimeError\<close> and the audit model refuses the record with \<^verbatim>\<open>DatabaseError\<close>:
  the caller gets the \<^verbatim>\<open>DatabaseError\<close>.
\<close>

theorem audit_failure_masks_original:
  "execute ex_broken_audit_settings ex_failing_profile [] (base_context None False)
     (new_result False) ex_world
     = (Some (PyError ''RuntimeError'' ''hook failed''), new_result False, ex_world)
   \<and> merge ex_broken_audit_settings ex_failing_profile PNone None None None None ex_world
     = (Inl (PyError ''DatabaseError'' ''audit table is unavailable''), ex_world)
   \<and> PyError ''DatabaseError'' ''audit table is unavailable''
     \<noteq> PyError ''RuntimeError'' ''hook failed''"
  by (simp add: run_defs ex_defs ex_failing_profile_def ex_failing_hook_def
        ex_broken_audit_settings_def Let_def)

text \<open>
  C3, as the code has it. When the instances pass validation and \<^verbatim>\<open>_execute\<close> raises
  \<open>exc\<close>, the store is the one the merge started from (outside a dry run; the instances
  keep their assignments), and \<^verbatim>\<open>_write_audit\<close> is called with the result as far as it
  got, status \<^verbatim>\<open>'failed'\<close> and message \<^verbatim>\<open>str(exc)\<close> (its \<^verbatim>\<open>dry_run\<close> is the result's,
  which is the mode of the call unless a post-hook has rewritten it). With no audit model, \<open>exc\<close> is raised
  and nothing is stored; when the audit model stores the record, \<open>exc\<close> is raised and
  the record is the one new audit row; when storing the record raises, that exception is
  what the caller gets.
\<close>

theorem merge_failure_audited:
  assumes valid: "validate_instances env p (w_target w) (w_donor w) = None"
    and dry: "dry = (case dry_run_arg of None \<Rightarrow> DRY_RUN_DEFAULT env | Some b \<Rightarrow> b)"
    and ex: "execute env p (case field_overrides of None \<Rightarrow> [] | Some ov \<Rightarrow> ov)
               (base_context ctx dry) (new_result dry) w = (Some exc, r1, w1)"
    and w2: "w2 = (if dry then w1 else w1\<lparr>w_db := w_db w\<rparr>)"
  shows "case AUDIT_MODEL env of
           None \<Rightarrow>
             merge env p user dry_run_arg field_overrides extra_summary ctx w = (Inl exc, w2)
         | Some am \<Rightarrow>
             (\<exists>kwargs.
                a_status kwargs = ''failed'' \<and> a_message kwargs = exc_str exc
              \<and> a_profile kwargs = label p \<and> a_dry_run kwargs = dry_run r1
              \<and> (post_merge_hooks p = [] \<longrightarrow> a_dry_run kwargs = dry)
              \<and> s_fields (a_summary kwargs) = changed_fields r1
              \<and> s_relations (a_summary kwargs) = relations r1
              \<and> s_soft_delete (a_summary kwargs) = soft_delete r1
              \<and> s_hard_delete (a_summary kwargs) = hard_delete r1
              \<and> (case am_create am kwargs of
                    None \<Rightarrow>
                      merge env p user dry_run_arg field_overrides extra_summary ctx w
                        = (Inl exc,
                           w2\<lparr>w_db := (w_db w2)\<lparr>audit_rows := audit_rows (w_db w2) @ [kwargs]\<rparr>\<rparr>)
                  | Some e2 \<Rightarrow>
                      merge env p user dry_run_arg field_overrides extra_summary ctx w
                        = (Inl e2, w2)))"
proof -
  have dr: "post_merge_hooks p = [] \<longrightarrow> dry_run r1 = dry"
    using execute_dry_run[OF _ ex] by (simp add: new_result_def)
  let ?failed = "r1\<lparr>status := ''failed'', error_str := Some (exc_str exc)\<rparr>"
  have m: "merge env p user dry_run_arg field_overrides extra_summary ctx w =
             (case write_audit env p ?failed w2 user extra_summary of
                Inl e2 \<Rightarrow> (Inl e2, w2)
              | Inr (r3, d3) \<Rightarrow> (Inl exc, w1\<lparr>w_db := d3\<rparr>))"
  proof (cases dry)
    case True
    with w2 have "w2 = w1" by simp
    with True valid ex[unfolded dry] show ?thesis
      by (simp add: merge_def Let_def dry[symmetric] split: sum.split)
  next
    case False
    with w2 have "w2 = w1\<lparr>w_db := w_db w\<rparr>" by simp
    with False valid ex[unfolded dry] show ?thesis
      by (simp add: merge_def Let_def dry[symmetric] split: sum.split)
  qed
  show ?thesis
  proof (cases "AUDIT_MODEL env")
    case None
    then show ?thesis
      by (simp add: m write_audit_def w2)
  next
    case (Some am)
    define kw where "kw =
                 \<lparr>a_profile = label p,
                  a_target_content_type = tname (w_target w2),
                  a_target_object_id = py_str (pk (w_target w2)),
                  a_donor_content_type = tname (w_donor w2),
                  a_donor_object_id = py_str (pk (w_donor w2)),
                  a_status = ''failed'',
                  a_dry_run = dry_run r1,
                  a_summary =
                    \<lparr>s_fields = changed_fields r1,
                     s_relations = relations r1,
                     s_soft_delete = soft_delete r1,
                     s_hard_delete = hard_delete r1,
                     s_extra =
                       (case extra_summary of
                          None \<Rightarrow> None
                        | Some ex \<Rightarrow>
                            if ex = [] then None
                            else Some (map (\<lambda>kv. (fst kv, serialize_value (snd kv))) ex))\<rparr>,
                  a_message = exc_str exc,
                  a_initiator =
                    (if user \<noteq> PNone \<and>
                        (am_has_initiator am \<or> ''initiator'' \<in> set (am_field_names am))
                     then Some user else None)\<rparr>"
    have wa: "write_audit env p ?failed w2 user extra_summary =
                (case am_create am kw of
                   Some e \<Rightarrow> Inl e
                 | None \<Rightarrow> Inr (?failed\<lparr>audit_record := Some kw\<rparr>,
                                 (w_db w2)\<lparr>audit_rows := audit_rows (w_db w2) @ [kw]\<rparr>))"
      unfolding kw_def
      by (simp add: write_audit_def Some Let_def split del: if_split)
    have w12: "w1\<lparr>w_db := (w_db w2)\<lparr>audit_rows := audit_rows (w_db w2) @ [kw]\<rparr>\<rparr>
               = w2\<lparr>w_db := (w_db w2)\<lparr>audit_rows := audit_rows (w_db w2) @ [kw]\<rparr>\<rparr>"
      by (simp add: w2)
    have fields: "a_status kw = ''failed'' \<and> a_message kw = exc_str exc
              \<and> a_profile kw = label p \<and> a_dry_run kw = dry_run r1
              \<and> (post_merge_hooks p = [] \<longrightarrow> a_dry_run kw = dry)
              \<and> s_fields (a_summary kw) = changed_fields r1
              \<and> s_relations (a_summary kw) = relations r1
              \<and> s_soft_delete (a_summary kw) = soft_delete r1
              \<and> s_hard_delete (a_summary kw) = hard_delete r1"
      using dr by (simp add: kw_def)
    have outcome: "case am_create am kw of
                    None \<Rightarrow>
                      merge env p user dry_run_arg field_overrides extra_summary ctx w
                        = (Inl exc,
                           w2\<lparr>w_db := (w_db w2)\<lparr>audit_rows := audit_rows (w_db w2) @ [kw]\<rparr>\<rparr>)
                  | Some e2 \<Rightarrow>
                      merge env p user dry_run_arg field_overrides extra_summary ctx w
                        = (Inl e2, w2)"
    proof (cases "am_create am kw")
      case None
      then show ?thesis by (simp add: m wa w12)
    next
      case (Some e2)
      then show ?thesis by (simp add: m wa)
    qed
    show ?thesis
      unfolding Some option.case
      using fields outcome dr by (intro exI[of _ kw]) simp
  qed
qed


theorem merge_failure_audited_witness:
  "\<exists>kwargs.
      a_status kwargs = ''failed'' \<and> a_message kwargs = ''hook failed''
    \<and> merge default_settings ex_failing_profile PNone None None None None ex_world
        = (Inl (PyError ''RuntimeError'' ''hook failed''),
           ex_world\<lparr>w_db := (w_db ex_world)\<lparr>audit_rows := audit_rows (w_db ex_world) @ [kwargs]\<rparr>\<rparr>)"
proof -
  have valid: "validate_instances default_settings ex_failing_profile
                 (w_target ex_world) (w_donor ex_world) = None"
    by (simp add: run_defs ex_defs ex_failing_profile_def)
  have dry: "False = (case None of None \<Rightarrow> DRY_RUN_DEFAULT default_settings | Some b \<Rightarrow> b)"
    by (simp add: default_settings_def)
  have ex: "execute default_settings ex_failing_profile (case None of None \<Rightarrow> [] | Some ov \<Rightarrow> ov)
              (base_context None False) (new_result False) ex_world
            = (Some (PyError ''RuntimeError'' ''hook failed''), new_result False, ex_world)"
    by (simp add: execute_def ex_failing_profile_def ex_failing_hook_def ex_profile_def)
  have w2: "ex_world = (if False then ex_world else ex_world\<lparr>w_db := w_db ex_world\<rparr>)"
    by simp
  have am: "AUDIT_MODEL default_settings = Some merge_operation"
    by (simp add: default_settings_def)
  from merge_failure_audited[OF valid dry ex w2, of PNone None]
  show ?thesis
    unfolding am option.case
    by (auto simp: merge_operation_def)
qed

section \<open>Dry runs\<close>

















end
